theory Spec2Isabelle
  imports Main "HOL-Library.Word"
begin

section \<open>The SFTP client of vscode-deploy-reloaded (src/clients/sftp.ts)\<close>

subsection \<open>Paths\<close>

text \<open>
  Strings are lists of characters. The two path separators are the forward slash and the
  backslash (the value of \<open>Path.sep\<close> on Windows).
\<close>

definition slash :: char where
  "slash = CHR ''/''"

definition backslash :: char where
  "backslash = CHR 0x5C"

definition is_sep :: "char \<Rightarrow> bool" where
  "is_sep c = (c = slash \<or> c = backslash)"

text \<open>
  Modelled from the spec: \<open>deploy_helpers.normalizePath\<close> lives in \<open>helpers.ts\<close>, which is
  not among the source files. Section 4.1 of the specification describes the normal form it
  produces for \<open>toSFTPPath\<close>: the input may be absolute or relative and may use either
  separator; the separators are normalised to the forward slash and redundant separators
  are collapsed. The three functions below scan the input once: \<open>np_lead\<close> skips the
  separators in front of the first segment, \<open>np_body\<close> copies a segment, and \<open>np_gap\<close>
  skips a run of separators and writes one forward slash only if another segment follows.
\<close>

fun np_body :: "string \<Rightarrow> string" and np_gap :: "string \<Rightarrow> string" where
  "np_body [] = []"
| "np_body (c # cs) = (if is_sep c then np_gap cs else c # np_body cs)"
| "np_gap [] = []"
| "np_gap (c # cs) = (if is_sep c then np_gap cs else slash # c # np_body cs)"

fun np_lead :: "string \<Rightarrow> string" where
  "np_lead [] = []"
| "np_lead (c # cs) = (if is_sep c then np_lead cs else c # np_body cs)"

definition normalizePath :: "string \<Rightarrow> string" where
  "normalizePath path = np_lead path"

text \<open>
  The functions that sftp.ts imports from \<open>../helpers\<close> and from the libraries \<open>path\<close> and
  \<open>minimatch\<close> are passed to the client as a record, so that everything that does not depend
  on what they compute is proved for every choice of them. \<open>h_doesMatch\<close> is
  \<open>deploy_helpers.doesMatch\<close> with the options \<open>{dot: true, nocase: true}\<close> that line 338
  fixes; \<open>h_dirname\<close> is \<open>Path.dirname\<close>.
\<close>

record helpers =
  h_normalizePath :: "string \<Rightarrow> string"
  h_normalizeString :: "string \<Rightarrow> string"
  h_doesMatch :: "string \<Rightarrow> string \<Rightarrow> bool"
  h_dirname :: "string \<Rightarrow> string"

text \<open>
  \<open>toSFTPPath\<close> (sftp.ts, lines 516-518): \<open>return '/' + deploy_helpers.normalizePath(path)\<close>.
\<close>

definition toSFTPPath :: "helpers \<Rightarrow> string \<Rightarrow> string" where
  "toSFTPPath H path = slash # h_normalizePath H path"

text \<open>Two neighbouring separators somewhere in a path.\<close>

fun doubled_sep :: "string \<Rightarrow> bool" where
  "doubled_sep (a # b # cs) = ((is_sep a \<and> is_sep b) \<or> doubled_sep (b # cs))"
| "doubled_sep _ = False"

text \<open>A path that starts with one forward slash and not with two.\<close>

fun single_root :: "string \<Rightarrow> bool" where
  "single_root [] = False"
| "single_root [a] = (a = slash)"
| "single_root (a # b # cs) = (a = slash \<and> b \<noteq> slash)"


subsection \<open>Strings and numbers of JavaScript\<close>

text \<open>
  \<open>String.prototype.trim\<close> removes white space and line terminators at both ends. Strings
  are modelled over the ASCII characters, where these are the tab, the line feed, the
  vertical tab, the form feed, the carriage return and the space.
\<close>

definition is_space :: "char \<Rightarrow> bool" where
  "is_space c = (c \<in> set [CHR 0x09, CHR 0x0A, CHR 0x0B, CHR 0x0C, CHR 0x0D, CHR '' ''])"

definition trim :: "string \<Rightarrow> string" where
  "trim s = rev (dropWhile is_space (rev (dropWhile is_space s)))"

definition lower_char :: "char \<Rightarrow> char" where
  "lower_char c =
     (if (65::nat) \<le> of_char c \<and> of_char c \<le> (90::nat) then char_of (of_char c + (32::nat)) else c)"

definition toLowerCase :: "string \<Rightarrow> string" where
  "toLowerCase s = map lower_char s"

text \<open>
  Modelled from the spec: \<open>deploy_helpers.normalizeString\<close> (helpers.ts, not among the source
  files). The specification calls its result "case/format-normalized": the string in lower
  case, without the white space around it.
\<close>

definition normalizeString :: "string \<Rightarrow> string" where
  "normalizeString s = trim (toLowerCase s)"

text \<open>
  Modelled from the spec: \<open>deploy_helpers.isEmptyString\<close> (helpers.ts, not among the source
  files): the value is blank.
\<close>

definition isEmptyString :: "string \<Rightarrow> bool" where
  "isEmptyString s = (trim s = [])"

text \<open>
  A JavaScript number as far as the client uses one: an integer, or \<open>NaN\<close>, which is what
  \<open>parseInt\<close> returns when it finds no digit. (\<open>parseInt\<close> rounds an integer beyond
  \<open>2^53\<close> to the nearest double; the model keeps the integer.)
\<close>

datatype jsnum = NaN | Num int

definition digit_of :: "char \<Rightarrow> nat" where
  "digit_of c = of_char c - 48"

definition is_digit :: "nat \<Rightarrow> char \<Rightarrow> bool" where
  "is_digit radix c = ((48::nat) \<le> of_char c \<and> of_char c < 48 + radix)"

definition digits_value :: "nat \<Rightarrow> string \<Rightarrow> nat" where
  "digits_value radix ds = foldl (\<lambda>a c. radix * a + digit_of c) 0 ds"

text \<open>
  \<open>parseInt(s, radix)\<close> for a radix of at most ten, after ECMAScript: skip leading white
  space, read an optional sign, take the longest run of digits of the radix, and return
  \<open>NaN\<close> if that run is empty. (The prefix \<open>0x\<close> is only looked for with radix 16.)
\<close>

definition parseInt :: "string \<Rightarrow> nat \<Rightarrow> jsnum" where
  "parseInt s radix =
     (let S = dropWhile is_space s;
          neg = (case S of [] \<Rightarrow> False | c # _ \<Rightarrow> c = CHR ''-'');
          S' = (case S of [] \<Rightarrow> [] | c # r \<Rightarrow> if c = CHR ''-'' \<or> c = CHR ''+'' then r else S);
          Z = takeWhile (is_digit radix) S'
      in if Z = [] then NaN
         else Num (if neg then - int (digits_value radix Z) else int (digits_value radix Z)))"

text \<open>\<open>Number.prototype.toString(radix)\<close> on such a number, for a radix of at most ten.\<close>

fun nat_digits :: "nat \<Rightarrow> nat \<Rightarrow> string" where
  "nat_digits radix n =
     (if radix < 2 \<or> n < radix then [char_of (48 + n)]
      else nat_digits radix (n div radix) @ [char_of (48 + n mod radix)])"

definition num_toString :: "jsnum \<Rightarrow> nat \<Rightarrow> string" where
  "num_toString x radix =
     (case x of
        NaN \<Rightarrow> ''NaN''
      | Num i \<Rightarrow> (if i < 0 then CHR ''-'' # nat_digits radix (nat (- i)) else nat_digits radix (nat i)))"


subsection \<open>Connection options and file modes\<close>

text \<open>
  \<open>SFTPFileMode = number | string\<close>, \<open>SFTPFileModePatterns = { [pattern: string]: SFTPFileMode }\<close>
  and \<open>SFTPFileModeSettings\<close> (lines 95-105). A JavaScript object is the list of its own
  properties in the order in which they were created (for an object literal or a parsed
  JSON text, the order in which they are written), with distinct keys.
\<close>

datatype SFTPFileMode = ModeNumber int | ModeString string

type_synonym SFTPFileModePatterns = "(string \<times> SFTPFileMode) list"

datatype SFTPFileModeSettings = SingleMode SFTPFileMode | ModePatterns SFTPFileModePatterns

datatype hashes_setting = OneHash string | ManyHashes "string list"

text \<open>\<open>SFTPConnectionOptions\<close> (lines 32-90); every property is optional.\<close>

record SFTPConnectionOptions =
  agent :: "string option"
  agentForward :: "bool option"
  debug :: "bool option"
  hashAlgorithm :: "string option"
  hashes :: "hashes_setting option"
  host :: "string option"
  modes :: "SFTPFileModeSettings option"
  password :: "string option"
  port :: "int option"
  privateKey :: "string option"
  privateKeyPassphrase :: "string option"
  readyTimeout :: "int option"
  tryKeyboard :: "bool option"
  user :: "string option"

text \<open>
  Modelled from the spec: \<open>deploy_helpers.toStringSafe\<close>, \<open>toBooleanSafe\<close> and \<open>asArray\<close>
  (helpers.ts, not among the source files), as their names and their uses in sftp.ts say:
  a missing value becomes the empty string, \<open>false\<close> or no element; a string stays as it
  is; an integer is written in decimal, as \<open>String(n)\<close> writes it; a single value becomes
  a one-element array.
\<close>

definition toStringSafe :: "string option \<Rightarrow> string" where
  "toStringSafe v = (case v of None \<Rightarrow> [] | Some s \<Rightarrow> s)"

definition mode_toStringSafe :: "SFTPFileMode option \<Rightarrow> string" where
  "mode_toStringSafe v =
     (case v of
        None \<Rightarrow> []
      | Some (ModeString s) \<Rightarrow> s
      | Some (ModeNumber n) \<Rightarrow> num_toString (Num n) 10)"

definition toBooleanSafe :: "bool option \<Rightarrow> bool" where
  "toBooleanSafe v = (case v of None \<Rightarrow> False | Some b \<Rightarrow> b)"

definition asArray :: "hashes_setting option \<Rightarrow> string list" where
  "asArray v = (case v of None \<Rightarrow> [] | Some (OneHash h) \<Rightarrow> [h] | Some (ManyHashes hs) \<Rightarrow> hs)"

subsection \<open>The order of \<open>for ... in\<close>\<close>

text \<open>
  \<open>for (const P in fileModes)\<close> (line 332) visits the keys of an ordinary object in the
  order of ECMAScript's \<open>OrdinaryOwnPropertyKeys\<close>: first the keys that are array indices
  (the canonical decimal numerals below \<open>2^32 - 1\<close>) in ascending numeric order, then the
  other keys in the order in which they were created.
\<close>

definition is_array_index :: "string \<Rightarrow> bool" where
  "is_array_index k =
     (k \<noteq> [] \<and> list_all (is_digit 10) k \<and> (k = ''0'' \<or> hd k \<noteq> CHR ''0'')
      \<and> int (digits_value 10 k) < 4294967295)"

definition for_in_keys :: "(string \<times> 'v) list \<Rightarrow> string list" where
  "for_in_keys obj =
     sort_key (digits_value 10) (filter is_array_index (map fst obj))
     @ filter (\<lambda>k. \<not> is_array_index k) (map fst obj)"

subsection \<open>A glob matcher\<close>

text \<open>
  Modelled from the spec: the pattern matcher is the library \<open>minimatch\<close>, reached through
  \<open>deploy_helpers.doesMatch\<close>; neither is among the source files. The specification gives
  its interface (\<open>match(path, globPattern, {caseInsensitive, matchDotfiles}) -> bool\<close>); the
  client calls it with both options set. This matcher covers the patterns of the
  specification's examples: path and pattern are split at the forward slash, \<open>**\<close> stands
  for any number of segments, and inside a segment \<open>*\<close> stands for any characters
  (a leading dot included), \<open>?\<close> for one character, and every other character for itself
  in either case.
\<close>

fun wild :: "string \<Rightarrow> string \<Rightarrow> bool" where
  "wild [] s = (s = [])"
| "wild (p # ps) [] = (p = CHR ''*'' \<and> wild ps [])"
| "wild (p # ps) (c # cs) =
     (if p = CHR ''*'' then wild ps (c # cs) \<or> wild (p # ps) cs
      else (p = CHR ''?'' \<or> lower_char p = lower_char c) \<and> wild ps cs)"

fun split_on :: "char \<Rightarrow> string \<Rightarrow> string list" where
  "split_on d [] = [[]]"
| "split_on d (c # cs) =
     (if c = d then [] # split_on d cs
      else (case split_on d cs of [] \<Rightarrow> [[c]] | x # xs \<Rightarrow> (c # x) # xs))"

fun glob_segs :: "string list \<Rightarrow> string list \<Rightarrow> bool" where
  "glob_segs [] [] = True"
| "glob_segs [] (s # ss) = False"
| "glob_segs (p # ps) [] = (p = ''**'' \<and> glob_segs ps [])"
| "glob_segs (p # ps) (s # ss) =
     (if p = ''**'' then glob_segs ps (s # ss) \<or> glob_segs (p # ps) ss
      else wild p s \<and> glob_segs ps ss)"

definition minimatch :: "string \<Rightarrow> string \<Rightarrow> bool" where
  "minimatch path pattern = glob_segs (split_on slash pattern) (split_on slash path)"

text \<open>
  Modelled from the spec: \<open>Path.dirname\<close> of Node's library \<open>path\<close> on a relative or absolute
  path: everything before the last separator; \<open>.\<close> when there is no separator and \<open>/\<close>
  when the only separator is the first character.
\<close>

definition dirname :: "string \<Rightarrow> string" where
  "dirname p =
     (let q = rev (dropWhile is_sep (rev p));
          d = rev (dropWhile is_sep (dropWhile (\<lambda>c. \<not> is_sep c) (rev q)))
      in if d \<noteq> [] then d
         else if list_ex is_sep q then [slash] else ''.'')"

text \<open>The helpers as modelled above.\<close>

definition deploy_helpers :: helpers where
  "deploy_helpers =
     \<lparr> h_normalizePath = normalizePath, h_normalizeString = normalizeString,
       h_doesMatch = minimatch, h_dirname = dirname \<rparr>"


subsection \<open>The transport, the local disk and the log\<close>

type_synonym buffer = "8 word list"

text \<open>A JavaScript error, thrown or handed to a callback, with its message.\<close>

datatype error = Error string

fun message :: "error \<Rightarrow> string" where
  "message (Error m) = m"

text \<open>What \<open>client.list\<close> reports for one directory entry (the fields the client reads).\<close>

record raw_entry =
  fi_name :: string
  fi_type :: string
  fi_size :: int
  fi_modifyTime :: int

text \<open>
  What a readable stream and the pipe into the temporary file do after the handlers are
  registered: the stream delivers chunks, which the pipe writes to the file, and then emits
  \<open>end\<close> or \<open>error\<close>; the write stream may emit \<open>error\<close>. A stream that has emitted
  \<open>error\<close> emits nothing more. The handler of \<open>end\<close> (lines 193-199) reads the temporary
  file at once, whether or not the write stream has finished, so \<open>end\<close> comes with what
  that read yields: an error (lines 196-198), or the number of bytes of the file that are on
  the disk at that moment. The write stream writes in order, so these bytes are the first
  ones that the pipe has handed to it.
\<close>

datatype io_event =
    Chunk buffer
  | StreamEnd "error + nat"
  | StreamError error
  | PipeError error

text \<open>
  The argument of \<open>client.connect\<close> (lines 475-504). The \<open>debug\<close> callback only writes to
  the log and is left out.
\<close>

record connect_config =
  cfg_agent :: "string option"
  cfg_agentForward :: bool
  cfg_hostHash :: string
  cfg_hostVerifier :: "string \<Rightarrow> bool"
  cfg_host :: string
  cfg_passphrase :: "string option"
  cfg_password :: "string option"
  cfg_port :: int
  cfg_privateKey :: "buffer option"
  cfg_readyTimeout :: int
  cfg_tryKeyboard :: bool
  cfg_username :: "string option"

text \<open>
  The collaborators of the client: the transport (\<open>ssh2-sftp-client\<close>; every operation names
  the client object it is called on), \<open>deploy_helpers.readFile\<close>, and the choice of a name for
  a temporary file. Each takes the state \<open>'w\<close> of everything outside the client (the
  remote hosts, the network, the local files other than the temporary ones) and returns the
  new state with its outcome. An operation that reports only success or failure returns
  the error, if any.
\<close>

record 'w env =
  sftp_connect :: "nat \<Rightarrow> connect_config \<Rightarrow> 'w \<Rightarrow> error option \<times> 'w"
  sftp_end :: "nat \<Rightarrow> 'w \<Rightarrow> error option \<times> 'w"
  sftp_list :: "nat \<Rightarrow> string \<Rightarrow> 'w \<Rightarrow> (error + raw_entry list) \<times> 'w"
  sftp_mkdir :: "nat \<Rightarrow> string \<Rightarrow> bool \<Rightarrow> 'w \<Rightarrow> error option \<times> 'w"
  sftp_put :: "nat \<Rightarrow> buffer \<Rightarrow> string \<Rightarrow> 'w \<Rightarrow> error option \<times> 'w"
  sftp_chmod :: "nat \<Rightarrow> string \<Rightarrow> jsnum \<Rightarrow> 'w \<Rightarrow> error option \<times> 'w"
  sftp_get :: "nat \<Rightarrow> string \<Rightarrow> 'w \<Rightarrow> (error + io_event list) \<times> 'w"
  sftp_delete :: "nat \<Rightarrow> string \<Rightarrow> 'w \<Rightarrow> error option \<times> 'w"
  fs_readFile :: "string \<Rightarrow> 'w \<Rightarrow> (error + buffer) \<times> 'w"
  tmp_name :: "'w \<Rightarrow> (error + string) \<times> 'w"

text \<open>The calls the client has issued, each with the error it ended with, if any.\<close>

datatype call =
    CConnect nat string int
  | CEnd nat
  | CList nat string
  | CMkdir nat string bool
  | CPut nat buffer string
  | CChmod nat string jsnum
  | CGet nat string
  | CDelete nat string
  | CReadFile string
  | CTmpName

type_synonym event = "call \<times> error option"

text \<open>The logging sink \<open>deploy_log.CONSOLE\<close>: severity, message and source tag.\<close>

datatype severity = Trace | Debug | Info | Notice

type_synonym log_entry = "severity \<times> string \<times> string"

text \<open>
  The state of the system: the outside world, the calls issued so far, the log, the number
  of client objects created so far (a new one gets the next number), and the temporary
  files on the local disk, each with the bytes that the pipe has written to it.
\<close>

record 'w sys =
  world :: 'w
  calls :: "event list"
  logs :: "log_entry list"
  next_client :: nat
  tmp_files :: "string \<rightharpoonup> buffer"

definition log :: "severity \<Rightarrow> string \<Rightarrow> string \<Rightarrow> 'w sys \<Rightarrow> 'w sys" where
  "log sev msg tag st = st\<lparr>logs := logs st @ [(sev, msg, tag)]\<rparr>"

definition issued :: "call \<Rightarrow> error option \<Rightarrow> 'w \<Rightarrow> 'w sys \<Rightarrow> 'w sys" where
  "issued c err w st = st\<lparr>world := w, calls := calls st @ [(c, err)]\<rparr>"

definition failure :: "error + 'a \<Rightarrow> error option" where
  "failure r = (case r of Inl e \<Rightarrow> Some e | Inr _ \<Rightarrow> None)"



definition do_list :: "'w env \<Rightarrow> nat \<Rightarrow> string \<Rightarrow> 'w sys \<Rightarrow> (error + raw_entry list) \<times> 'w sys" where
  "do_list E c p st =
     (case sftp_list E c p (world st) of (r, w) \<Rightarrow> (r, issued (CList c p) (failure r) w st))"

definition do_mkdir :: "'w env \<Rightarrow> nat \<Rightarrow> string \<Rightarrow> bool \<Rightarrow> 'w sys \<Rightarrow> error option \<times> 'w sys" where
  "do_mkdir E c p recursive st =
     (case sftp_mkdir E c p recursive (world st) of
        (err, w) \<Rightarrow> (err, issued (CMkdir c p recursive) err w st))"

definition do_put :: "'w env \<Rightarrow> nat \<Rightarrow> buffer \<Rightarrow> string \<Rightarrow> 'w sys \<Rightarrow> error option \<times> 'w sys" where
  "do_put E c d p st =
     (case sftp_put E c d p (world st) of (err, w) \<Rightarrow> (err, issued (CPut c d p) err w st))"

definition do_chmod :: "'w env \<Rightarrow> nat \<Rightarrow> string \<Rightarrow> jsnum \<Rightarrow> 'w sys \<Rightarrow> error option \<times> 'w sys" where
  "do_chmod E c p m st =
     (case sftp_chmod E c p m (world st) of (err, w) \<Rightarrow> (err, issued (CChmod c p m) err w st))"

definition do_get :: "'w env \<Rightarrow> nat \<Rightarrow> string \<Rightarrow> 'w sys \<Rightarrow> (error + io_event list) \<times> 'w sys" where
  "do_get E c p st =
     (case sftp_get E c p (world st) of (r, w) \<Rightarrow> (r, issued (CGet c p) (failure r) w st))"

definition do_delete :: "'w env \<Rightarrow> nat \<Rightarrow> string \<Rightarrow> 'w sys \<Rightarrow> error option \<times> 'w sys" where
  "do_delete E c p st =
     (case sftp_delete E c p (world st) of (err, w) \<Rightarrow> (err, issued (CDelete c p) err w st))"


definition do_tmpName :: "'w env \<Rightarrow> 'w sys \<Rightarrow> (error + string) \<times> 'w sys" where
  "do_tmpName E st = (case tmp_name E (world st) of (r, w) \<Rightarrow> (r, issued CTmpName (failure r) w st))"

text \<open>
  Modelled from the spec: \<open>deploy_helpers.createCompletedAction(resolve, reject)\<close> (helpers.ts,
  not among the source files) is the single completion path of an operation: the action it
  returns takes an error and a result, and settles the promise once, rejecting with the
  error when there is one and resolving with the result otherwise. sftp.ts uses it so:
  \<open>COMPLETED(e)\<close> in every \<open>catch\<close>, \<open>COMPLETED(null)\<close> and \<open>COMPLETED(null, DOWNLOADED_DATA)\<close> on
  success.
\<close>

definition COMPLETED :: "error option \<Rightarrow> 'a \<Rightarrow> error + 'a" where
  "COMPLETED err result = (case err of Some e \<Rightarrow> Inl e | None \<Rightarrow> Inr result)"


subsection \<open>The client\<close>

text \<open>
  \<open>SFTPClient\<close> (lines 117-148): the number of its transport object \<open>client\<close>, the options it
  was created with, and the private table \<open>_checkedRemoteDirs\<close> of line 118. \<open>createClient\<close>
  (lines 398-404) makes a new transport object and an empty table. (The constructor's
  keyboard-interactive responder does nothing until the server prompts, and is left out.)
\<close>

record SFTPClient =
  client :: nat
  options :: SFTPConnectionOptions
  checkedRemoteDirs :: "string \<rightharpoonup> bool"

definition createClient :: "SFTPConnectionOptions \<Rightarrow> 'w sys \<Rightarrow> SFTPClient \<times> 'w sys" where
  "createClient opts st =
     (\<lparr> client = next_client st, options = opts, checkedRemoteDirs = Map.empty \<rparr>,
      st\<lparr>next_client := Suc (next_client st)\<rparr>)"

subsubsection \<open>openConnection (lines 413-507)\<close>

text \<open>Lines 438-441: the supported hashes.\<close>

definition supported_hashes :: "helpers \<Rightarrow> SFTPConnectionOptions \<Rightarrow> string list" where
  "supported_hashes H opts =
     filter (\<lambda>x. x \<noteq> []) (map (h_normalizeString H) (asArray (hashes opts)))"

text \<open>Lines 479-486: the host verifier, a closure over the supported hashes.\<close>

definition hostVerifier :: "helpers \<Rightarrow> string list \<Rightarrow> string \<Rightarrow> bool" where
  "hostVerifier H hs keyHash =
     (if length hs < 1 then True
      else (let keyHash' = h_normalizeString H keyHash in keyHash' \<in> set hs))"

text \<open>
  Lines 416-466 and 473-495: the defaults and the argument of \<open>connect\<close>. A port or timeout
  that is set is an integer, which \<open>parseInt\<close> reads back from its decimal form.
\<close>

definition blank_to_undefined :: "string option \<Rightarrow> string option" where
  "blank_to_undefined v = (if toStringSafe v = [] then None else Some (toStringSafe v))"

definition connect_config_of :: "helpers \<Rightarrow> SFTPConnectionOptions \<Rightarrow> buffer option \<Rightarrow> connect_config" where
  "connect_config_of H opts key =
     \<lparr> cfg_agent = (if isEmptyString (toStringSafe (agent opts)) then None
                    else Some (toStringSafe (agent opts))),
       cfg_agentForward = toBooleanSafe (agentForward opts),
       cfg_hostHash = (if h_normalizeString H (toStringSafe (hashAlgorithm opts)) = [] then ''md5''
                       else h_normalizeString H (toStringSafe (hashAlgorithm opts))),
       cfg_hostVerifier = hostVerifier H (supported_hashes H opts),
       cfg_host = (if h_normalizeString H (toStringSafe (host opts)) = [] then ''127.0.0.1''
                   else h_normalizeString H (toStringSafe (host opts))),
       cfg_passphrase = blank_to_undefined (privateKeyPassphrase opts),
       cfg_password = blank_to_undefined (password opts),
       cfg_port = (case port opts of None \<Rightarrow> 22 | Some n \<Rightarrow> n),
       cfg_privateKey = key,
       cfg_readyTimeout = (case readyTimeout opts of None \<Rightarrow> 20000 | Some n \<Rightarrow> n),
       cfg_tryKeyboard = toBooleanSafe (tryKeyboard opts),
       cfg_username = blank_to_undefined (user opts) \<rparr>"


subsubsection \<open>deleteFile (lines 151-162)\<close>

definition deleteFile :: "'w env \<Rightarrow> helpers \<Rightarrow> SFTPClient \<Rightarrow> string \<Rightarrow> 'w sys \<Rightarrow> bool \<times> 'w sys" where
  "deleteFile E H ME path st =
     (case do_delete E (client ME) (toSFTPPath H path) st of
        (None, st1) \<Rightarrow> (True, st1)
      | (Some e, st1) \<Rightarrow> (False, st1))"

subsubsection \<open>downloadFile (lines 165-213)\<close>

text \<open>
  Modelled from the spec: \<open>deploy_helpers.invokeForTempFile\<close> (helpers.ts, not among the source
  files) is the temp-file provider: it passes the path of a temporary file to the body and
  deletes the file after the body's promise has been resolved or rejected, and then settles
  its own promise in the same way.

  \<open>pump tmpFile events files\<close> runs the handlers of lines 176-199 on what the stream and the
  pipe do, up to the moment at which the promise of \<open>downloadFile\<close> is settled, and returns
  the outcome with the temporary files of that moment; \<open>None\<close> when the promise is never
  settled.
  \<^item> A chunk is written to the temporary file by the pipe.
  \<^item> \<open>end\<close> (line 193): the file is read; \<open>COMP\<close> resolves the body's promise with the
    bytes that are on the disk, or rejects it with the error of the read; the provider
    deletes the file; line 207 or line 210 completes the download.
  \<^item> An error of the pipe (line 189): \<open>COMP(err)\<close> rejects the body's promise; the provider
    deletes the file; the \<open>await\<close> of line 180 throws and line 210 completes the download.
  \<^item> An error of the stream (line 176): \<open>COMPLETED(err)\<close> rejects the promise of
    \<open>downloadFile\<close> at once. \<open>COMP\<close> is not called, so the body's promise stays pending and
    the provider has nothing to react to.
\<close>

fun pump ::
  "string \<Rightarrow> io_event list \<Rightarrow> (string \<rightharpoonup> buffer) \<Rightarrow> (error + buffer) option \<times> (string \<rightharpoonup> buffer)" where
  "pump tmpFile [] fs = (None, fs)"
| "pump tmpFile (Chunk b # evs) fs =
     pump tmpFile evs (fs(tmpFile \<mapsto> (case fs tmpFile of None \<Rightarrow> b | Some d \<Rightarrow> d @ b)))"
| "pump tmpFile (StreamEnd (Inr flushed) # evs) fs =
     (Some (COMPLETED None (take flushed (case fs tmpFile of None \<Rightarrow> [] | Some d \<Rightarrow> d))),
      fs(tmpFile := None))"
| "pump tmpFile (StreamEnd (Inl err) # evs) fs = (Some (COMPLETED (Some err) []), fs(tmpFile := None))"
| "pump tmpFile (PipeError err # evs) fs = (Some (COMPLETED (Some err) []), fs(tmpFile := None))"
| "pump tmpFile (StreamError err # evs) fs = (Some (COMPLETED (Some err) []), fs)"

text \<open>
  The whole function: normalise the path, open the stream (line 174; a failure is caught
  in line 209), get a temporary file (a failure is caught in line 209), create it by
  opening the write stream (line 186), and let the handlers run.
\<close>

definition downloadFile ::
  "'w env \<Rightarrow> helpers \<Rightarrow> SFTPClient \<Rightarrow> string \<Rightarrow> 'w sys \<Rightarrow> (error + buffer) option \<times> 'w sys" where
  "downloadFile E H ME path st =
     (case do_get E (client ME) (toSFTPPath H path) st of
        (Inl e, st1) \<Rightarrow> (Some (COMPLETED (Some e) []), st1)
      | (Inr STREAM, st1) \<Rightarrow>
          (case do_tmpName E st1 of
             (Inl e, st2) \<Rightarrow> (Some (COMPLETED (Some e) []), st2)
           | (Inr tmpFile, st2) \<Rightarrow>
               (case pump tmpFile STREAM ((tmp_files st2)(tmpFile \<mapsto> [])) of
                  (r, fs) \<Rightarrow> (r, st2\<lparr>tmp_files := fs\<rparr>))))"


subsubsection \<open>listDirectory (lines 216-283)\<close>

text \<open>
  \<open>deploy_files.FileSystemInfo\<close> as the listing builds it: the property \<open>type\<close> is
  \<open>FileSystemType.Directory\<close>, \<open>FileSystemType.File\<close> or absent, and \<open>download\<close> is present on
  file entries only. The \<open>download\<close> closure of lines 240-258 is kept as the values it
  captures: \<open>ME.options\<close>, the listed \<open>path\<close> and \<open>FI.name\<close>. The time is the number that is
  handed to \<open>Moment\<close>.
\<close>

datatype FileSystemType = Directory | File

datatype download_closure = Download SFTPConnectionOptions string string

record FileSystemInfo =
  fsi_name :: string
  fsi_path :: string
  fsi_size :: int
  fsi_time :: int
  fsi_type :: "FileSystemType option"
  fsi_download :: "download_closure option"

text \<open>The body of the loop of lines 225-280: what is pushed for the raw entry \<open>FI\<close>.\<close>

definition toFileSystemInfo :: "helpers \<Rightarrow> SFTPClient \<Rightarrow> string \<Rightarrow> raw_entry \<Rightarrow> FileSystemInfo" where
  "toFileSystemInfo H ME path FI =
     (if ''d'' = fi_type FI then
        \<lparr> fsi_name = fi_name FI, fsi_path = h_normalizePath H path, fsi_size = fi_size FI,
          fsi_time = fi_modifyTime FI, fsi_type = Some Directory, fsi_download = None \<rparr>
      else if ''-'' = fi_type FI then
        \<lparr> fsi_name = fi_name FI, fsi_path = h_normalizePath H path, fsi_size = fi_size FI,
          fsi_time = fi_modifyTime FI, fsi_type = Some File,
          fsi_download = Some (Download (options ME) path (fi_name FI)) \<rparr>
      else
        \<lparr> fsi_name = fi_name FI, fsi_path = h_normalizePath H path, fsi_size = fi_size FI,
          fsi_time = fi_modifyTime FI, fsi_type = None, fsi_download = None \<rparr>)"

fun list_loop ::
  "helpers \<Rightarrow> SFTPClient \<Rightarrow> string \<Rightarrow> raw_entry list \<Rightarrow> FileSystemInfo list \<Rightarrow> FileSystemInfo list" where
  "list_loop H ME path [] RESULT = RESULT"
| "list_loop H ME path (FI # LIST) RESULT =
     list_loop H ME path LIST (RESULT @ [toFileSystemInfo H ME path FI])"

definition listDirectory ::
  "'w env \<Rightarrow> helpers \<Rightarrow> SFTPClient \<Rightarrow> string \<Rightarrow> 'w sys \<Rightarrow> (error + FileSystemInfo list) \<times> 'w sys" where
  "listDirectory E H ME path st =
     (case do_list E (client ME) (toSFTPPath H path) st of
        (Inl e, st1) \<Rightarrow> (Inl e, st1)
      | (Inr LIST, st1) \<Rightarrow> (Inr (list_loop H ME (toSFTPPath H path) LIST []), st1))"


subsubsection \<open>uploadFile (lines 291-387)\<close>

text \<open>Lines 302-312: a single mode becomes the one pattern \<open>**/*\<close>.\<close>

definition fileModes_of :: "SFTPFileModeSettings option \<Rightarrow> SFTPFileModePatterns option" where
  "fileModes_of ms =
     (case ms of
        None \<Rightarrow> None
      | Some (SingleMode m) \<Rightarrow> Some [(''**/*'', m)]
      | Some (ModePatterns ps) \<Rightarrow> Some ps)"

text \<open>
  Lines 314-327: check that the remote directory exists, unless the table says so already.
  A failure of \<open>list\<close> is caught and \<open>mkdir\<close> is tried; a failure of \<open>mkdir\<close> leaves the
  function through the outer \<open>catch\<close>, before line 326.
\<close>

definition checkRemoteDir ::
  "'w env \<Rightarrow> SFTPClient \<Rightarrow> string \<Rightarrow> 'w sys \<Rightarrow> error option \<times> SFTPClient \<times> 'w sys" where
  "checkRemoteDir E ME REMOTE_DIR st =
     (if checkedRemoteDirs ME REMOTE_DIR \<noteq> Some True then
        (case do_list E (client ME) REMOTE_DIR st of
           (Inr entries, st1) \<Rightarrow>
             (None, ME\<lparr>checkedRemoteDirs := (checkedRemoteDirs ME)(REMOTE_DIR \<mapsto> True)\<rparr>, st1)
         | (Inl e, st1) \<Rightarrow>
             (case do_mkdir E (client ME) REMOTE_DIR True st1 of
                (None, st2) \<Rightarrow>
                  (None, ME\<lparr>checkedRemoteDirs := (checkedRemoteDirs ME)(REMOTE_DIR \<mapsto> True)\<rparr>, st2)
              | (Some e2, st2) \<Rightarrow> (Some e2, ME, st2)))
      else (None, ME, st))"

text \<open>
  Lines 332-349: the loop over the keys in the order of \<open>for ... in\<close>, left by \<open>break\<close> at the
  first pattern that matches. A pattern that does not start with a forward slash gets one
  in front (lines 333-336). The result is \<open>matchedPattern\<close> with \<open>modeToSet\<close>.
\<close>

definition startsWith_slash :: "string \<Rightarrow> bool" where
  "startsWith_slash P = (case P of [] \<Rightarrow> False | c # cs \<Rightarrow> c = slash)"

definition rooted :: "string \<Rightarrow> string" where
  "rooted P = (if \<not> startsWith_slash P then slash # P else P)"

fun mode_loop ::
  "helpers \<Rightarrow> string \<Rightarrow> SFTPFileModePatterns \<Rightarrow> string list \<Rightarrow> (string \<times> jsnum) option" where
  "mode_loop H path fileModes [] = None"
| "mode_loop H path fileModes (P # Ps) =
     (if h_doesMatch H path (rooted P)
      then Some (P, parseInt (trim (mode_toStringSafe (map_of fileModes P))) 8)
      else mode_loop H path fileModes Ps)"

text \<open>Lines 329-359: \<open>modeToSet\<close>, where \<open>None\<close> is \<open>false\<close>, and the notice that is logged.\<close>

definition modeToSet_of ::
  "helpers \<Rightarrow> string \<Rightarrow> SFTPFileModePatterns option \<Rightarrow> 'w sys \<Rightarrow> jsnum option \<times> 'w sys" where
  "modeToSet_of H path fm st =
     (case fm of
        None \<Rightarrow> (None, st)
      | Some fileModes \<Rightarrow>
          (case mode_loop H path fileModes (for_in_keys fileModes) of
             None \<Rightarrow>
               (None, log Notice ([CHR 0x27] @ path @ [CHR 0x27] @ '' does NOT match with a mode pattern'')
                        ''clients.sftp.uploadFile(3)'' st)
           | Some (matchedPattern, m) \<Rightarrow>
               (Some m, log Notice ([CHR 0x27] @ path @ [CHR 0x27] @ '' matches with mode pattern ''
                                    @ [CHR 0x27] @ matchedPattern @ [CHR 0x27])
                          ''clients.sftp.uploadFile(3)'' st)))"

text \<open>
  Lines 366-381: the step after the write. With a mode, \<open>chmod\<close> is called and its callback
  logs an error and hands it to \<open>COMPLETED\<close>; without one, \<open>COMPLETED(null)\<close>.
\<close>

definition setMode ::
  "'w env \<Rightarrow> SFTPClient \<Rightarrow> string \<Rightarrow> jsnum option \<Rightarrow> 'w sys \<Rightarrow> (error + unit) \<times> 'w sys" where
  "setMode E ME path modeToSet st =
     (case modeToSet of
        Some m \<Rightarrow>
          (case do_chmod E (client ME) path m
                  (log Info (''Setting mode for '' @ [CHR 0x27] @ path @ [CHR 0x27] @ '' to ''
                             @ num_toString m 8 @ '' ...'') ''clients.sftp.uploadFile(1)'' st) of
             (Some err, st1) \<Rightarrow>
               (COMPLETED (Some err) (), log Trace (message err) ''clients.sftp.uploadFile(2)'' st1)
           | (None, st1) \<Rightarrow> (COMPLETED None (), st1))
      | None \<Rightarrow> (COMPLETED None (), st))"

text \<open>
  The whole function. It returns the outcome of the promise, the client with its table,
  and the state of the system.
\<close>

definition uploadFile ::
  "'w env \<Rightarrow> helpers \<Rightarrow> SFTPClient \<Rightarrow> string \<Rightarrow> buffer \<Rightarrow> 'w sys
     \<Rightarrow> (error + unit) \<times> SFTPClient \<times> 'w sys" where
  "uploadFile E H ME path data st =
     (let REMOTE_DIR = toSFTPPath H (h_dirname H path);
          path' = toSFTPPath H path;
          fileModes = fileModes_of (modes (options ME))
      in case checkRemoteDir E ME REMOTE_DIR st of
           (Some e, ME1, st1) \<Rightarrow> (COMPLETED (Some e) (), ME1, st1)
         | (None, ME1, st1) \<Rightarrow>
             (case modeToSet_of H path' fileModes st1 of
                (modeToSet, st2) \<Rightarrow>
                  (case do_put E (client ME1) data path' st2 of
                     (Some e, st3) \<Rightarrow> (COMPLETED (Some e) (), ME1, st3)
                   | (None, st3) \<Rightarrow>
                       (case setMode E ME1 path' modeToSet st3 of
                          (r, st4) \<Rightarrow> (r, ME1, st4)))))"


subsection \<open>Sessions and the specification's resolver\<close>


text \<open>
  The permission resolver in the specification's words (section 4.2), to be compared with
  the loop of \<open>uploadFile\<close>: go through the patterns in the order in which they are declared;
  the first pattern whose glob matches the path wins, and its value, trimmed, is parsed as
  an octal integer; without a match the result is "none".
\<close>

fun resolvePermission :: "helpers \<Rightarrow> string \<Rightarrow> SFTPFileModePatterns \<Rightarrow> jsnum option" where
  "resolvePermission H remotePath [] = None"
| "resolvePermission H remotePath ((pattern, v) # spec) =
     (if h_doesMatch H remotePath (rooted pattern)
      then Some (parseInt (trim (mode_toStringSafe (Some v))) 8)
      else resolvePermission H remotePath spec)"

subsection \<open>Values for the examples\<close>

text \<open>The options object \<open>{}\<close>, and options that set \<open>hashes\<close> or \<open>modes\<close> only.\<close>

definition no_options :: SFTPConnectionOptions where
  "no_options =
     \<lparr> agent = None, agentForward = None, debug = None, hashAlgorithm = None, hashes = None,
       host = None, modes = None, password = None, port = None, privateKey = None,
       privateKeyPassphrase = None, readyTimeout = None, tryKeyboard = None, user = None \<rparr>"

definition options_with_hashes :: "string list \<Rightarrow> SFTPConnectionOptions" where
  "options_with_hashes hs = no_options\<lparr>hashes := Some (ManyHashes hs)\<rparr>"

definition options_with_modes :: "SFTPFileModeSettings \<Rightarrow> SFTPConnectionOptions" where
  "options_with_modes ms = no_options\<lparr>modes := Some ms\<rparr>"

text \<open>
  A transport for the examples that answers every call from a fixed script, whatever the
  client it is called on and whatever the path.
\<close>

record script =
  on_connect :: "error option"
  on_end :: "error option"
  on_list :: "error + raw_entry list"
  on_mkdir :: "error option"
  on_put :: "error option"
  on_chmod :: "error option"
  on_get :: "error + io_event list"

definition all_fine :: script where
  "all_fine =
     \<lparr> on_connect = None, on_end = None, on_list = Inr [], on_mkdir = None, on_put = None,
       on_chmod = None, on_get = Inr [StreamEnd (Inr 0)] \<rparr>"

definition scripted :: "script \<Rightarrow> unit env" where
  "scripted s =
     \<lparr> sftp_connect = (\<lambda>c cfg w. (on_connect s, w)),
       sftp_end = (\<lambda>c w. (on_end s, w)),
       sftp_list = (\<lambda>c p w. (on_list s, w)),
       sftp_mkdir = (\<lambda>c p r w. (on_mkdir s, w)),
       sftp_put = (\<lambda>c d p w. (on_put s, w)),
       sftp_chmod = (\<lambda>c p m w. (on_chmod s, w)),
       sftp_get = (\<lambda>c p w. (on_get s, w)),
       sftp_delete = (\<lambda>c p w. (None, w)),
       fs_readFile = (\<lambda>f w. (Inr [], w)),
       tmp_name = (\<lambda>w. (Inr ''/tmp/vscdr.tmp'', w)) \<rparr>"

text \<open>The system before anything has happened, and the first client that is created.\<close>

definition fresh :: "unit sys" where
  "fresh = \<lparr> world = (), calls = [], logs = [], next_client = 0, tmp_files = Map.empty \<rparr>"

definition first_client :: "SFTPConnectionOptions \<Rightarrow> SFTPClient" where
  "first_client opts = fst (createClient opts fresh)"

definition after_first_client :: "unit sys" where
  "after_first_client = fresh\<lparr>next_client := 1\<rparr>"

text \<open>A directory, a regular file and a symbolic link, as \<open>client.list\<close> reports them.\<close>

definition three_entries :: "raw_entry list" where
  "three_entries =
     [\<lparr> fi_name = ''src'', fi_type = ''d'', fi_size = 4096, fi_modifyTime = 1500000000000 \<rparr>,
      \<lparr> fi_name = ''a.txt'', fi_type = ''-'', fi_size = 3, fi_modifyTime = 1500000000001 \<rparr>,
      \<lparr> fi_name = ''latest'', fi_type = ''l'', fi_size = 7, fi_modifyTime = 1500000000002 \<rparr>]"




text \<open>An upload with the single mode \<open>"644"\<close> on a server that refuses \<open>chmod\<close>.\<close>

definition chmod_refused :: script where
  "chmod_refused = all_fine\<lparr>on_chmod := Some (Error ''EPERM'')\<rparr>"

definition upload_chmod_refused :: "(error + unit) \<times> SFTPClient \<times> unit sys" where
  "upload_chmod_refused =
     uploadFile (scripted chmod_refused) deploy_helpers
       (first_client (options_with_modes (SingleMode (ModeString ''644'')))) ''a/b.txt'' [1, 2, 3]
       after_first_client"

text \<open>An upload with the patterns \<open>{"*.sh": "rwx"}\<close>, whose mode is no octal numeral.\<close>

definition upload_mode_rwx :: "(error + unit) \<times> SFTPClient \<times> unit sys" where
  "upload_mode_rwx =
     uploadFile (scripted all_fine) deploy_helpers
       (first_client (options_with_modes (ModePatterns [(''*.sh'', ModeString ''rwx'')]))) ''run.sh''
       [1, 2, 3] after_first_client"

text \<open>
  A download of a file of three bytes that arrive in two chunks and are on the disk when
  the stream ends.
\<close>

definition three_bytes :: script where
  "three_bytes = all_fine\<lparr>on_get := Inr [Chunk [1, 2], Chunk [3], StreamEnd (Inr 3)]\<rparr>"

text \<open>
  A download whose stream delivers three bytes and then breaks, and the same on a server
  that also fails to close the connection.
\<close>

definition stream_breaks :: script where
  "stream_breaks = all_fine\<lparr>on_get := Inr [Chunk [1, 2, 3], StreamError (Error ''ECONNRESET'')]\<rparr>"

definition download_stream_breaks :: "(error + buffer) option \<times> unit sys" where
  "download_stream_breaks =
     downloadFile (scripted stream_breaks) deploy_helpers (first_client no_options) ''a/b.bin''
       after_first_client"


section \<open>Properties\<close>

subsection \<open>The path normaliser\<close>

lemma np_body_idem: "np_body (np_body x) = np_body x"
  and np_gap_idem: "np_body (np_gap y) = np_gap y"
  by (induction x and y rule: np_body_np_gap.induct) (auto simp: is_sep_def)

lemma np_lead_idem: "np_lead (np_lead x) = np_lead x"
  by (induction x) (auto simp: np_body_idem)

lemma np_body_no_doubled: "\<not> doubled_sep (np_body x)"
  and np_gap_no_doubled: "\<not> doubled_sep (np_gap y)"
proof (induction x and y rule: np_body_np_gap.induct)
  case (2 c cs)
  then show ?case by (cases "np_body cs") auto
next
  case (4 c cs)
  then show ?case by (cases "np_body cs") auto
qed auto

lemma np_lead_no_doubled: "\<not> doubled_sep (np_lead x)"
proof (induction x)
  case (Cons c cs)
  then show ?case using np_body_no_doubled [of cs] by (cases "np_body cs") auto
qed auto

lemma np_lead_no_sep_first: "np_lead x = [] \<or> \<not> is_sep (hd (np_lead x))"
  by (induction x) auto

text \<open>
  Claim C3. For every input string \<open>x\<close>, \<open>toSFTPPath x\<close> starts with exactly one forward
  slash, contains no two neighbouring separators, and is a fixed point of \<open>toSFTPPath\<close>:
  \<open>toSFTPPath (toSFTPPath x) = toSFTPPath x\<close>. The path normaliser is the one modelled from
  the specification.
\<close>

theorem toSFTPPath_single_root_collapsed_idempotent:
  "single_root (toSFTPPath deploy_helpers x)
   \<and> \<not> doubled_sep (toSFTPPath deploy_helpers x)
   \<and> toSFTPPath deploy_helpers (toSFTPPath deploy_helpers x) = toSFTPPath deploy_helpers x"
proof -
  let ?n = "np_lead x"
  have first: "?n = [] \<or> \<not> is_sep (hd ?n)"
    by (rule np_lead_no_sep_first)
  have root: "single_root (slash # ?n)"
    using first by (cases ?n) (auto simp: is_sep_def)
  have nodbl: "\<not> doubled_sep (slash # ?n)"
    using first np_lead_no_doubled [of x] by (cases ?n) auto
  have idem: "np_lead (slash # ?n) = ?n"
    by (simp add: is_sep_def np_lead_idem)
  show ?thesis
    using root nodbl idem by (simp add: toSFTPPath_def deploy_helpers_def normalizePath_def)
qed

theorem toSFTPPath_single_root_collapsed_idempotent_witness:
  "toSFTPPath deploy_helpers (''//a//b'' @ [backslash, backslash] @ ''c/'') = ''/a/b/c''
   \<and> single_root ''/a/b/c'' \<and> \<not> doubled_sep ''/a/b/c''
   \<and> toSFTPPath deploy_helpers ''/a/b/c'' = ''/a/b/c''"
proof -
  have val: "toSFTPPath deploy_helpers (''//a//b'' @ [backslash, backslash] @ ''c/'') = ''/a/b/c''"
    by (simp add: toSFTPPath_def deploy_helpers_def normalizePath_def is_sep_def slash_def
        backslash_def)
  show ?thesis
    using toSFTPPath_single_root_collapsed_idempotent
            [of "''//a//b'' @ [backslash, backslash] @ ''c/''"]
    unfolding val by (simp add: is_sep_def slash_def backslash_def)
qed


subsection \<open>The host verifier\<close>

lemma verifier_of_config:
  "cfg_hostVerifier (connect_config_of H opts key) = hostVerifier H (supported_hashes H opts)"
  by (simp add: connect_config_of_def)

lemma set_supported_hashes:
  "set (supported_hashes H opts) = h_normalizeString H ` set (asArray (hashes opts)) - {[]}"
  by (auto simp: supported_hashes_def)

lemma helpers_normalizeString: "h_normalizeString deploy_helpers = normalizeString"
  by (simp add: deploy_helpers_def)

lemma normalizeString_abc123: "normalizeString ''abc123'' = ''abc123''"
  by code_simp

lemma normalizeString_ABC123: "normalizeString '' ABC123 '' = ''abc123''"
  by code_simp

lemma normalizeString_other: "normalizeString ''de:ad:be:ef'' = ''de:ad:be:ef''"
  by code_simp

lemma normalizeString_blank: "normalizeString ''   '' = []"
  by code_simp

lemma normalizeString_empty: "normalizeString [] = []"
  by code_simp

lemma supported_hashes_abc123:
  "supported_hashes deploy_helpers (options_with_hashes [''abc123'']) = [''abc123'']"
  by (simp add: supported_hashes_def helpers_normalizeString options_with_hashes_def
      no_options_def asArray_def normalizeString_abc123)

lemma supported_hashes_none: "supported_hashes deploy_helpers (options_with_hashes []) = []"
  by (simp add: supported_hashes_def options_with_hashes_def no_options_def asArray_def)

text \<open>
  Claim C4. The host verifier that \<open>openConnection\<close> hands to \<open>connect\<close> accepts every host
  key when there is no supported digest; otherwise it accepts a key if and only if the
  normalised digest is among the supported digests. The supported digests are the
  configured ones after normalisation, without the empty string.
\<close>

theorem hostVerifier_accepts_iff_digest_supported:
  "(supported_hashes H opts = [] \<longrightarrow> cfg_hostVerifier (connect_config_of H opts key) keyHash)
   \<and> (supported_hashes H opts \<noteq> [] \<longrightarrow>
        cfg_hostVerifier (connect_config_of H opts key) keyHash
          = (h_normalizeString H keyHash \<in> set (supported_hashes H opts)))
   \<and> set (supported_hashes H opts) = h_normalizeString H ` set (asArray (hashes opts)) - {[]}"
proof (intro conjI impI)
  assume "supported_hashes H opts = []"
  then show "cfg_hostVerifier (connect_config_of H opts key) keyHash"
    by (simp add: verifier_of_config hostVerifier_def)
next
  assume "supported_hashes H opts \<noteq> []"
  then have "\<not> length (supported_hashes H opts) < 1"
    by (cases "supported_hashes H opts") simp_all
  then show "cfg_hostVerifier (connect_config_of H opts key) keyHash
          = (h_normalizeString H keyHash \<in> set (supported_hashes H opts))"
    by (simp add: verifier_of_config hostVerifier_def)
next
  show "set (supported_hashes H opts) = h_normalizeString H ` set (asArray (hashes opts)) - {[]}"
    by (rule set_supported_hashes)
qed

text \<open>
  With \<open>hashes: []\<close> any key is accepted; with \<open>hashes: ["abc123"]\<close> a key with another digest
  is rejected, and a key whose digest differs from \<open>abc123\<close> in case and white space only is
  accepted.
\<close>

theorem hostVerifier_accepts_iff_digest_supported_witness:
  "cfg_hostVerifier (connect_config_of deploy_helpers (options_with_hashes []) None) ''de:ad:be:ef''
   \<and> \<not> cfg_hostVerifier (connect_config_of deploy_helpers (options_with_hashes [''abc123'']) None)
          ''de:ad:be:ef''
   \<and> cfg_hostVerifier (connect_config_of deploy_helpers (options_with_hashes [''abc123'']) None)
        '' ABC123 ''"
proof -
  note a = hostVerifier_accepts_iff_digest_supported
             [of deploy_helpers "options_with_hashes []" None "''de:ad:be:ef''",
              THEN conjunct1, rule_format, OF supported_hashes_none]
  have ne: "supported_hashes deploy_helpers (options_with_hashes [''abc123'']) \<noteq> []"
    by (simp add: supported_hashes_abc123)
  note b = hostVerifier_accepts_iff_digest_supported
             [of deploy_helpers "options_with_hashes [''abc123'']" None "''de:ad:be:ef''",
              THEN conjunct2, THEN conjunct1, rule_format, OF ne]
  note c = hostVerifier_accepts_iff_digest_supported
             [of deploy_helpers "options_with_hashes [''abc123'']" None "'' ABC123 ''",
              THEN conjunct2, THEN conjunct1, rule_format, OF ne]
  show ?thesis
    using a b c
    by (simp add: supported_hashes_abc123 helpers_normalizeString normalizeString_ABC123
        normalizeString_other)
qed

text \<open>
  Claim C10. When every configured hash normalises to the empty string (the list may well
  be non-empty), no supported digest is left after the filter of line 441, and the host
  verifier accepts every host key.
\<close>

theorem hostVerifier_accepts_all_when_hashes_blank:
  assumes "\<forall>h \<in> set (asArray (hashes opts)). h_normalizeString H h = []"
  shows "supported_hashes H opts = []
         \<and> (\<forall>keyHash. cfg_hostVerifier (connect_config_of H opts key) keyHash)"
proof -
  have "supported_hashes H opts = []"
    using assms by (simp add: supported_hashes_def filter_empty_conv)
  then show ?thesis by (simp add: verifier_of_config hostVerifier_def)
qed

theorem hostVerifier_accepts_all_when_hashes_blank_witness:
  "asArray (hashes (options_with_hashes [[], ''   ''])) \<noteq> []
   \<and> supported_hashes deploy_helpers (options_with_hashes [[], ''   '']) = []
   \<and> cfg_hostVerifier (connect_config_of deploy_helpers (options_with_hashes [[], ''   '']) None)
        ''de:ad:be:ef''"
proof -
  have h: "\<forall>h \<in> set (asArray (hashes (options_with_hashes [[], ''   '']))).
             h_normalizeString deploy_helpers h = []"
    by (simp add: options_with_hashes_def no_options_def asArray_def helpers_normalizeString
        normalizeString_blank normalizeString_empty)
  have ne: "asArray (hashes (options_with_hashes [[], ''   ''])) \<noteq> []"
    by (simp add: options_with_hashes_def no_options_def asArray_def)
  show ?thesis
    using hostVerifier_accepts_all_when_hashes_blank [OF h, of None] ne by blast
qed


subsection \<open>Listing a directory\<close>

lemma list_loop_map:
  "list_loop H ME path LIST RESULT = RESULT @ map (toFileSystemInfo H ME path) LIST"
  by (induction LIST arbitrary: RESULT) simp_all

lemma toFileSystemInfo_cases:
  "fsi_name (toFileSystemInfo H ME p FI) = fi_name FI
   \<and> fsi_path (toFileSystemInfo H ME p FI) = h_normalizePath H p
   \<and> (fi_type FI = ''d'' \<longrightarrow>
        fsi_type (toFileSystemInfo H ME p FI) = Some Directory
        \<and> fsi_download (toFileSystemInfo H ME p FI) = None)
   \<and> (fi_type FI = ''-'' \<longrightarrow>
        fsi_type (toFileSystemInfo H ME p FI) = Some File
        \<and> fsi_download (toFileSystemInfo H ME p FI) = Some (Download (options ME) p (fi_name FI)))
   \<and> (fi_type FI \<noteq> ''d'' \<and> fi_type FI \<noteq> ''-'' \<longrightarrow>
        fsi_type (toFileSystemInfo H ME p FI) = None
        \<and> fsi_download (toFileSystemInfo H ME p FI) = None)"
  by (simp add: toFileSystemInfo_def)

text \<open>
  Claim C8. When the transport returns the raw entries \<open>LIST\<close>, \<open>listDirectory\<close> returns one
  entry for each of them, in the same order, and the type code alone decides its shape:
  \<open>d\<close> gives a directory entry without \<open>download\<close>, \<open>-\<close> gives a file entry with
  \<open>download\<close>, and any other code gives an entry without a type and without \<open>download\<close>.
\<close>

theorem listDirectory_one_entry_per_type_code:
  assumes "sftp_list E (client ME) (toSFTPPath H path) (world st) = (Inr LIST, w)"
  shows "\<exists>RESULT. fst (listDirectory E H ME path st) = Inr RESULT
           \<and> length RESULT = length LIST
           \<and> (\<forall>i < length LIST.
                 fsi_name (RESULT ! i) = fi_name (LIST ! i)
                 \<and> (fi_type (LIST ! i) = ''d'' \<longrightarrow>
                      fsi_type (RESULT ! i) = Some Directory \<and> fsi_download (RESULT ! i) = None)
                 \<and> (fi_type (LIST ! i) = ''-'' \<longrightarrow>
                      fsi_type (RESULT ! i) = Some File \<and> fsi_download (RESULT ! i) \<noteq> None)
                 \<and> (fi_type (LIST ! i) \<noteq> ''d'' \<and> fi_type (LIST ! i) \<noteq> ''-'' \<longrightarrow>
                      fsi_type (RESULT ! i) = None \<and> fsi_download (RESULT ! i) = None))"
proof -
  let ?R = "map (toFileSystemInfo H ME (toSFTPPath H path)) LIST"
  have res: "fst (listDirectory E H ME path st) = Inr ?R"
    using assms by (simp add: listDirectory_def do_list_def list_loop_map)
  have each: "\<forall>i < length LIST.
                 fsi_name (?R ! i) = fi_name (LIST ! i)
                 \<and> (fi_type (LIST ! i) = ''d'' \<longrightarrow>
                      fsi_type (?R ! i) = Some Directory \<and> fsi_download (?R ! i) = None)
                 \<and> (fi_type (LIST ! i) = ''-'' \<longrightarrow>
                      fsi_type (?R ! i) = Some File \<and> fsi_download (?R ! i) \<noteq> None)
                 \<and> (fi_type (LIST ! i) \<noteq> ''d'' \<and> fi_type (LIST ! i) \<noteq> ''-'' \<longrightarrow>
                      fsi_type (?R ! i) = None \<and> fsi_download (?R ! i) = None)"
    using toFileSystemInfo_cases [of H ME "toSFTPPath H path"] by simp
  show ?thesis
    using res each by (intro exI [of _ ?R]) simp
qed

theorem listDirectory_one_entry_per_type_code_witness:
  "sftp_list (scripted (all_fine\<lparr>on_list := Inr three_entries\<rparr>)) (client (first_client no_options))
      (toSFTPPath deploy_helpers ''www'') (world after_first_client) = (Inr three_entries, ())
   \<and> (\<exists>RESULT. fst (listDirectory (scripted (all_fine\<lparr>on_list := Inr three_entries\<rparr>)) deploy_helpers
                      (first_client no_options) ''www'' after_first_client) = Inr RESULT
         \<and> length RESULT = 3
         \<and> fsi_type (RESULT ! 0) = Some Directory \<and> fsi_download (RESULT ! 0) = None
         \<and> fsi_type (RESULT ! 1) = Some File \<and> fsi_download (RESULT ! 1) \<noteq> None
         \<and> fsi_type (RESULT ! 2) = None \<and> fsi_download (RESULT ! 2) = None)"
proof -
  have h: "sftp_list (scripted (all_fine\<lparr>on_list := Inr three_entries\<rparr>))
             (client (first_client no_options)) (toSFTPPath deploy_helpers ''www'')
             (world after_first_client) = (Inr three_entries, ())"
    by (simp add: scripted_def)
  have len: "length three_entries = 3"
    by (simp add: three_entries_def)
  have types: "fi_type (three_entries ! 0) = ''d''" "fi_type (three_entries ! 1) = ''-''"
    "fi_type (three_entries ! 2) = ''l''"
    by (simp_all add: three_entries_def)
  from listDirectory_one_entry_per_type_code [OF h]
  obtain RESULT where R:
    "fst (listDirectory (scripted (all_fine\<lparr>on_list := Inr three_entries\<rparr>)) deploy_helpers
            (first_client no_options) ''www'' after_first_client) = Inr RESULT"
    "length RESULT = length three_entries"
    "\<forall>i < length three_entries.
        fsi_name (RESULT ! i) = fi_name (three_entries ! i)
        \<and> (fi_type (three_entries ! i) = ''d'' \<longrightarrow>
             fsi_type (RESULT ! i) = Some Directory \<and> fsi_download (RESULT ! i) = None)
        \<and> (fi_type (three_entries ! i) = ''-'' \<longrightarrow>
             fsi_type (RESULT ! i) = Some File \<and> fsi_download (RESULT ! i) \<noteq> None)
        \<and> (fi_type (three_entries ! i) \<noteq> ''d'' \<and> fi_type (three_entries ! i) \<noteq> ''-'' \<longrightarrow>
             fsi_type (RESULT ! i) = None \<and> fsi_download (RESULT ! i) = None)"
    by blast
  have "fsi_type (RESULT ! 0) = Some Directory \<and> fsi_download (RESULT ! 0) = None"
    using R(3) [rule_format, of 0] types(1) len by simp
  moreover have "fsi_type (RESULT ! 1) = Some File \<and> fsi_download (RESULT ! 1) \<noteq> None"
    using R(3) [rule_format, of 1] types(2) len by simp
  moreover have "fsi_type (RESULT ! 2) = None \<and> fsi_download (RESULT ! 2) = None"
    using R(3) [rule_format, of 2] types(3) len by simp
  ultimately show ?thesis
    using h R(1) R(2) len by auto
qed


subsection \<open>The mode of an uploaded file\<close>

lemma mode_loop_none: "(\<forall>k \<in> set ks. \<not> h_doesMatch H path (rooted k)) \<Longrightarrow> mode_loop H path fm ks = None"
  by (induction ks) simp_all

lemma mode_loop_first:
  "i < length ks \<Longrightarrow> h_doesMatch H path (rooted (ks ! i)) \<Longrightarrow> (\<forall>j < i. \<not> h_doesMatch H path (rooted (ks ! j)))
   \<Longrightarrow> mode_loop H path fm ks = Some (ks ! i, parseInt (trim (mode_toStringSafe (map_of fm (ks ! i)))) 8)"
proof (induction ks arbitrary: i)
  case Nil
  then show ?case by simp
next
  case (Cons k ks)
  show ?case
  proof (cases i)
    case 0
    with Cons.prems show ?thesis by simp
  next
    case (Suc n)
    have nk: "\<not> h_doesMatch H path (rooted k)"
      using Cons.prems(3) Suc by auto
    have "mode_loop H path fm ks = Some (ks ! n, parseInt (trim (mode_toStringSafe (map_of fm (ks ! n)))) 8)"
    proof (rule Cons.IH)
      show "n < length ks" using Cons.prems(1) Suc by simp
      show "h_doesMatch H path (rooted (ks ! n))" using Cons.prems(2) Suc by simp
      show "\<forall>j<n. \<not> h_doesMatch H path (rooted (ks ! j))"
        using Cons.prems(3) Suc by auto
    qed
    with nk Suc show ?thesis by simp
  qed
qed

lemma for_in_keys_plain:
  "(\<forall>k \<in> set (map fst fm). \<not> is_array_index k) \<Longrightarrow> for_in_keys fm = map fst fm"
  by (simp add: for_in_keys_def filter_empty_conv filter_id_conv)

lemma mode_loop_resolvePermission:
  "(\<forall>(k, v) \<in> set ps. map_of fm k = Some v) \<Longrightarrow>
   map_option snd (mode_loop H path fm (map fst ps)) = resolvePermission H path ps"
  by (induction ps) auto

lemma mode_loop_declared_order:
  assumes "distinct (map fst fm)"
  shows "map_option snd (mode_loop H path fm (map fst fm)) = resolvePermission H path fm"
  by (rule mode_loop_resolvePermission) (use assms in auto)

lemma fst_modeToSet_of: "fst (modeToSet_of H path (Some fm) st) = map_option snd (mode_loop H path fm (for_in_keys fm))"
  by (simp add: modeToSet_of_def split: option.splits)


lemma toSFTPPath_7: "toSFTPPath deploy_helpers ''7'' = ''/7''"
  by code_simp

lemma for_in_keys_counterexample:
  "for_in_keys [(''**/*'', ModeString ''644''), (''7'', ModeString ''755'')] = [''7'', ''**/*'']"
  by (simp add: for_in_keys_def is_array_index_def is_digit_def digits_value_def digit_of_def)

lemma mode_loop_counterexample:
  "mode_loop deploy_helpers ''/7'' [(''**/*'', ModeString ''644''), (''7'', ModeString ''755'')]
     [''7'', ''**/*''] = Some (''7'', Num 493)"
  by code_simp

lemma resolvePermission_counterexample:
  "resolvePermission deploy_helpers ''/7'' [(''**/*'', ModeString ''644''), (''7'', ModeString ''755'')]
     = Some (Num 420)"
  by code_simp

text \<open>
  The patterns \<open>{"**/*": "644", "7": "755"}\<close> and the upload of \<open>7\<close>: both patterns match
  \<open>/7\<close>. \<open>**/*\<close> is declared first, but \<open>7\<close> is an array index, so \<open>for ... in\<close> visits it
  first, and the mode is \<open>0o755\<close>, where the resolver of the specification gives \<open>0o644\<close>.
\<close>

theorem modeToSet_declared_order_counterexample:
  "fst (modeToSet_of deploy_helpers (toSFTPPath deploy_helpers ''7'')
          (Some [(''**/*'', ModeString ''644''), (''7'', ModeString ''755'')]) fresh) = Some (Num 493)
   \<and> resolvePermission deploy_helpers (toSFTPPath deploy_helpers ''7'')
          [(''**/*'', ModeString ''644''), (''7'', ModeString ''755'')] = Some (Num 420)"
  by (simp add: fst_modeToSet_of toSFTPPath_7 for_in_keys_counterexample mode_loop_counterexample
      resolvePermission_counterexample del: mode_loop.simps resolvePermission.simps)

text \<open>
  Claim C2, amended. The patterns are tried in the order of \<open>for ... in\<close>: the keys that
  are array indices first, in ascending numeric order, then the other keys in the order in
  which they are declared. The first pattern that matches the normalised remote path (a
  pattern without a leading forward slash gets one) wins, and its value, trimmed, is parsed
  as an octal integer. When the keys are distinct and none is an array index, this is the
  declared order, and the result is the one of the specification's resolver. In particular
  the patterns \<open>{"**/*.sh": "755", "**/*": "644"}\<close> give \<open>0o755 = 493\<close> for \<open>/a/b.sh\<close>.
\<close>

theorem modeToSet_first_match_in_for_in_order:
  "(\<forall>i < length (for_in_keys fm).
       h_doesMatch H path (rooted (for_in_keys fm ! i))
       \<and> (\<forall>j < i. \<not> h_doesMatch H path (rooted (for_in_keys fm ! j)))
       \<longrightarrow> fst (modeToSet_of H path (Some fm) st)
             = Some (parseInt (trim (mode_toStringSafe (map_of fm (for_in_keys fm ! i)))) 8))
   \<and> (distinct (map fst fm) \<and> (\<forall>k \<in> set (map fst fm). \<not> is_array_index k)
       \<longrightarrow> for_in_keys fm = map fst fm
           \<and> fst (modeToSet_of H path (Some fm) st) = resolvePermission H path fm)"
proof (intro conjI allI impI)
  fix i
  assume "i < length (for_in_keys fm)"
    and "h_doesMatch H path (rooted (for_in_keys fm ! i))
         \<and> (\<forall>j < i. \<not> h_doesMatch H path (rooted (for_in_keys fm ! j)))"
  then show "fst (modeToSet_of H path (Some fm) st)
             = Some (parseInt (trim (mode_toStringSafe (map_of fm (for_in_keys fm ! i)))) 8)"
    by (simp add: fst_modeToSet_of mode_loop_first)
next
  assume a: "distinct (map fst fm) \<and> (\<forall>k \<in> set (map fst fm). \<not> is_array_index k)"
  then show "for_in_keys fm = map fst fm"
    by (simp add: for_in_keys_plain)
  with a show "fst (modeToSet_of H path (Some fm) st) = resolvePermission H path fm"
    by (simp add: fst_modeToSet_of mode_loop_declared_order)
qed

lemma plain_keys_example:
  "distinct (map fst [(''**/*.sh'', ModeString ''755''), (''**/*'', ModeString ''644'')])
   \<and> (\<forall>k \<in> set (map fst [(''**/*.sh'', ModeString ''755''), (''**/*'', ModeString ''644'')]).
         \<not> is_array_index k)"
  by (simp add: is_array_index_def is_digit_def)

lemma resolvePermission_example:
  "resolvePermission deploy_helpers ''/a/b.sh''
     [(''**/*.sh'', ModeString ''755''), (''**/*'', ModeString ''644'')] = Some (Num 493)"
  by code_simp

theorem modeToSet_first_match_in_for_in_order_witness:
  "distinct (map fst [(''**/*.sh'', ModeString ''755''), (''**/*'', ModeString ''644'')])
   \<and> \<not> is_array_index ''**/*.sh'' \<and> \<not> is_array_index ''**/*''
   \<and> fst (modeToSet_of deploy_helpers ''/a/b.sh''
            (Some [(''**/*.sh'', ModeString ''755''), (''**/*'', ModeString ''644'')]) fresh)
       = Some (Num 493)"
  using modeToSet_first_match_in_for_in_order
          [of "[(''**/*.sh'', ModeString ''755''), (''**/*'', ModeString ''644'')]"
              deploy_helpers "''/a/b.sh''" fresh,
           THEN conjunct2, rule_format, OF plain_keys_example]
    plain_keys_example resolvePermission_example
  by (simp del: resolvePermission.simps)

subsection \<open>Uploading\<close>

lemma issued_simps [simp]:
  "calls (issued c e w st) = calls st @ [(c, e)]"
  "logs (issued c e w st) = logs st"
  "world (issued c e w st) = w"
  "next_client (issued c e w st) = next_client st"
  "tmp_files (issued c e w st) = tmp_files st"
  by (simp_all add: issued_def)

lemma log_simps [simp]:
  "calls (log sev msg tag st) = calls st"
  "logs (log sev msg tag st) = logs st @ [(sev, msg, tag)]"
  "world (log sev msg tag st) = world st"
  "next_client (log sev msg tag st) = next_client st"
  "tmp_files (log sev msg tag st) = tmp_files st"
  by (simp_all add: log_def)

lemma modeToSet_of_frame [simp]:
  "calls (snd (modeToSet_of H p fm st)) = calls st"
  "world (snd (modeToSet_of H p fm st)) = world st"
  by (simp_all add: modeToSet_of_def split: option.splits)


lemma checkRemoteDir_effect:
  assumes "checkRemoteDir E ME D st = (e, ME1, st1)"
  shows "client ME1 = client ME \<and> options ME1 = options ME
         \<and> (\<exists>evs. calls st1 = calls st @ evs
               \<and> (\<forall>d. checkedRemoteDirs ME1 d = Some True \<longrightarrow>
                      checkedRemoteDirs ME d = Some True
                      \<or> (CList (client ME) d, None) \<in> set evs
                      \<or> (CMkdir (client ME) d True, None) \<in> set evs))"
  using assms
  by (auto simp: checkRemoteDir_def do_list_def do_mkdir_def failure_def
      split: if_splits prod.splits sum.splits option.splits)








lemma COMPLETED_cases:
  "COMPLETED err x = (case err of None \<Rightarrow> Inr x | Some e \<Rightarrow> Inl e)"
  by (simp add: COMPLETED_def split: option.splits)

lemma uploadFile_reaches_setMode:
  assumes dir: "checkRemoteDir E ME (toSFTPPath H (h_dirname H path)) st = (None, ME1, st1)"
    and put: "sftp_put E (client ME) data (toSFTPPath H path) (world st1) = (None, w)"
  shows "uploadFile E H ME path data st =
           (fst (setMode E ME1 (toSFTPPath H path)
                   (fst (modeToSet_of H (toSFTPPath H path) (fileModes_of (modes (options ME))) st1))
                   (issued (CPut (client ME) data (toSFTPPath H path)) None w
                      (snd (modeToSet_of H (toSFTPPath H path) (fileModes_of (modes (options ME))) st1)))),
            ME1,
            snd (setMode E ME1 (toSFTPPath H path)
                   (fst (modeToSet_of H (toSFTPPath H path) (fileModes_of (modes (options ME))) st1))
                   (issued (CPut (client ME) data (toSFTPPath H path)) None w
                      (snd (modeToSet_of H (toSFTPPath H path) (fileModes_of (modes (options ME))) st1)))))"
proof -
  let ?p = "toSFTPPath H path"
  have c: "client ME1 = client ME"
    using checkRemoteDir_effect [OF dir] by simp
  obtain m stb where ms: "modeToSet_of H ?p (fileModes_of (modes (options ME))) st1 = (m, stb)"
    by (cases "modeToSet_of H ?p (fileModes_of (modes (options ME))) st1") auto
  have wb: "world stb = world st1"
    using modeToSet_of_frame(2) [of H ?p "fileModes_of (modes (options ME))" st1] ms by simp
  have "do_put E (client ME1) data ?p stb = (None, issued (CPut (client ME) data ?p) None w stb)"
    using put c wb by (simp add: do_put_def)
  then show ?thesis
    using dir ms by (simp add: uploadFile_def Let_def split: prod.splits)
qed

lemma setMode_some:
  assumes "sftp_chmod E (client ME) p m (world st) = (err, w)"
  shows "fst (setMode E ME p (Some m) st) = COMPLETED err ()"
    and "calls (snd (setMode E ME p (Some m) st)) = calls st @ [(CChmod (client ME) p m, err)]"
    and "err = Some e \<Longrightarrow> last (logs (snd (setMode E ME p (Some m) st)))
           = (Trace, message e, ''clients.sftp.uploadFile(2)'')"
  using assms by (auto simp: setMode_def do_chmod_def COMPLETED_def split: option.splits)

text \<open>
  Claim C1, amended. When the directory step has succeeded, a mode was resolved and the
  remote write has succeeded, the outcome of \<open>uploadFile\<close> is the outcome of \<open>chmod\<close>: an
  error of \<open>chmod\<close> is logged and \<open>uploadFile\<close> is rejected with it (line 376 hands it to
  \<open>COMPLETED\<close>); without an error \<open>uploadFile\<close> is resolved.
\<close>

theorem uploadFile_outcome_is_chmod_outcome:
  assumes dir: "checkRemoteDir E ME (toSFTPPath H (h_dirname H path)) st = (None, ME1, st1)"
    and mode: "fst (modeToSet_of H (toSFTPPath H path) (fileModes_of (modes (options ME))) st1) = Some m"
    and put: "sftp_put E (client ME) data (toSFTPPath H path) (world st1) = (None, w)"
    and chmod: "fst (sftp_chmod E (client ME) (toSFTPPath H path) m w) = err"
  shows "fst (uploadFile E H ME path data st) = (case err of None \<Rightarrow> Inr () | Some e \<Rightarrow> Inl e)
         \<and> (\<forall>e. err = Some e \<longrightarrow>
               last (logs (snd (snd (uploadFile E H ME path data st))))
                 = (Trace, message e, ''clients.sftp.uploadFile(2)''))"
proof -
  let ?p = "toSFTPPath H path"
  let ?st3 = "issued (CPut (client ME) data ?p) None w
                (snd (modeToSet_of H ?p (fileModes_of (modes (options ME))) st1))"
  have c: "client ME1 = client ME"
    using checkRemoteDir_effect [OF dir] by simp
  obtain w' where ch: "sftp_chmod E (client ME1) ?p m (world ?st3) = (err, w')"
    using chmod c by (cases "sftp_chmod E (client ME) ?p m w") auto
  have up: "uploadFile E H ME path data st =
              (fst (setMode E ME1 ?p (Some m) ?st3), ME1, snd (setMode E ME1 ?p (Some m) ?st3))"
    using uploadFile_reaches_setMode [OF dir put] mode by simp
  show ?thesis
    using setMode_some(1) [OF ch] setMode_some(3) [OF ch] up
    by (simp add: COMPLETED_cases)
qed

text \<open>
  The single mode \<open>"644"\<close> and a server that refuses \<open>chmod\<close> with \<open>EPERM\<close>: the write
  succeeds, \<open>chmod\<close> fails, and \<open>uploadFile\<close> is rejected with \<open>EPERM\<close>.
\<close>

theorem uploadFile_chmod_failure_counterexample:
  "fst upload_chmod_refused = Inl (Error ''EPERM'')
   \<and> calls (snd (snd upload_chmod_refused)) =
       [(CList 0 ''/a'', None), (CPut 0 [1, 2, 3] ''/a/b.txt'', None),
        (CChmod 0 ''/a/b.txt'' (Num 420), Some (Error ''EPERM''))]"
  by code_simp

lemma triple_collapse: "fst x = a \<Longrightarrow> x = (a, fst (snd x), snd (snd x))"
  by (cases x) auto

theorem uploadFile_outcome_is_chmod_outcome_witness:
  "fst upload_chmod_refused = Inl (Error ''EPERM'')
   \<and> last (logs (snd (snd upload_chmod_refused))) = (Trace, ''EPERM'', ''clients.sftp.uploadFile(2)'')"
proof -
  let ?E = "scripted chmod_refused"
  let ?ME = "first_client (options_with_modes (SingleMode (ModeString ''644'')))"
  let ?cr = "checkRemoteDir ?E ?ME (toSFTPPath deploy_helpers (h_dirname deploy_helpers ''a/b.txt''))
               after_first_client"
  have "fst ?cr = None"
    by code_simp
  then have dir: "?cr = (None, fst (snd ?cr), snd (snd ?cr))"
    by (rule triple_collapse)
  have mode: "fst (modeToSet_of deploy_helpers (toSFTPPath deploy_helpers ''a/b.txt'')
                     (fileModes_of (modes (options ?ME))) (snd (snd ?cr))) = Some (Num 420)"
    by code_simp
  have put: "sftp_put ?E (client ?ME) [1, 2, 3] (toSFTPPath deploy_helpers ''a/b.txt'')
               (world (snd (snd ?cr))) = (None, ())"
    by (simp add: scripted_def chmod_refused_def all_fine_def)
  have chmod: "fst (sftp_chmod ?E (client ?ME) (toSFTPPath deploy_helpers ''a/b.txt'') (Num 420) ())
                 = Some (Error ''EPERM'')"
    by (simp add: scripted_def chmod_refused_def all_fine_def)
  show ?thesis
    using uploadFile_outcome_is_chmod_outcome [OF dir mode put chmod]
    by (simp add: upload_chmod_refused_def)
qed





text \<open>
  Claim C9. When the first pattern that matches (in the order of the loop) has a value
  whose trimmed string \<open>parseInt\<close> cannot read with radix 8, \<open>modeToSet\<close> is \<open>NaN\<close>; \<open>NaN\<close>
  is not \<open>false\<close>, so once the directory step and the write have succeeded, \<open>chmod\<close> is
  called with \<open>NaN\<close>, as the last call of the upload.
\<close>

theorem uploadFile_NaN_mode_still_chmod:
  assumes fm: "fileModes_of (modes (options ME)) = Some fileModes"
    and i: "i < length (for_in_keys fileModes)"
    and hit: "h_doesMatch H (toSFTPPath H path) (rooted (for_in_keys fileModes ! i))"
    and first: "\<forall>j < i. \<not> h_doesMatch H (toSFTPPath H path) (rooted (for_in_keys fileModes ! j))"
    and nan: "parseInt (trim (mode_toStringSafe (map_of fileModes (for_in_keys fileModes ! i)))) 8 = NaN"
    and dir: "checkRemoteDir E ME (toSFTPPath H (h_dirname H path)) st = (None, ME1, st1)"
    and put: "sftp_put E (client ME) data (toSFTPPath H path) (world st1) = (None, w)"
  shows "fst (modeToSet_of H (toSFTPPath H path) (Some fileModes) st1) = Some NaN
         \<and> last (calls (snd (snd (uploadFile E H ME path data st))))
             = (CChmod (client ME) (toSFTPPath H path) NaN,
                fst (sftp_chmod E (client ME) (toSFTPPath H path) NaN w))"
proof -
  let ?p = "toSFTPPath H path"
  let ?st3 = "issued (CPut (client ME) data ?p) None w
                (snd (modeToSet_of H ?p (fileModes_of (modes (options ME))) st1))"
  have mode: "fst (modeToSet_of H ?p (Some fileModes) st1) = Some NaN"
    using mode_loop_first [OF i hit first, of fileModes] nan by (simp add: fst_modeToSet_of)
  have c: "client ME1 = client ME"
    using checkRemoteDir_effect [OF dir] by simp
  obtain err w' where ch: "sftp_chmod E (client ME1) ?p NaN (world ?st3) = (err, w')"
    by (cases "sftp_chmod E (client ME1) ?p NaN (world ?st3)") auto
  have err: "err = fst (sftp_chmod E (client ME) ?p NaN w)"
    using ch c by simp
  have up: "uploadFile E H ME path data st =
              (fst (setMode E ME1 ?p (Some NaN) ?st3), ME1, snd (setMode E ME1 ?p (Some NaN) ?st3))"
    using uploadFile_reaches_setMode [OF dir put] mode fm by simp
  show ?thesis
    using mode setMode_some(2) [OF ch] up c err by simp
qed

theorem uploadFile_NaN_mode_still_chmod_witness:
  "parseInt (trim ''rwx'') 8 = NaN
   \<and> fst upload_mode_rwx = Inr ()
   \<and> last (calls (snd (snd upload_mode_rwx))) = (CChmod 0 ''/run.sh'' NaN, None)"
proof -
  let ?fm = "[(''*.sh'', ModeString ''rwx'')]"
  let ?ME = "first_client (options_with_modes (ModePatterns ?fm))"
  let ?E = "scripted all_fine"
  let ?cr = "checkRemoteDir ?E ?ME (toSFTPPath deploy_helpers (h_dirname deploy_helpers ''run.sh''))
               after_first_client"
  have fm: "fileModes_of (modes (options ?ME)) = Some ?fm"
    by code_simp
  have i: "0 < length (for_in_keys ?fm)"
    by code_simp
  have hit: "h_doesMatch deploy_helpers (toSFTPPath deploy_helpers ''run.sh'')
               (rooted (for_in_keys ?fm ! 0))"
    by code_simp
  have first: "\<forall>j < (0::nat). \<not> h_doesMatch deploy_helpers (toSFTPPath deploy_helpers ''run.sh'')
                 (rooted (for_in_keys ?fm ! j))"
    by simp
  have nan: "parseInt (trim (mode_toStringSafe (map_of ?fm (for_in_keys ?fm ! 0)))) 8 = NaN"
    by code_simp
  have "fst ?cr = None"
    by code_simp
  then have dir: "?cr = (None, fst (snd ?cr), snd (snd ?cr))"
    by (rule triple_collapse)
  have put: "sftp_put ?E (client ?ME) [1, 2, 3] (toSFTPPath deploy_helpers ''run.sh'')
               (world (snd (snd ?cr))) = (None, ())"
    by (simp add: scripted_def all_fine_def)
  have p: "toSFTPPath deploy_helpers ''run.sh'' = ''/run.sh''"
    by code_simp
  have c: "client ?ME = 0"
    by code_simp
  have r: "fst upload_mode_rwx = Inr ()"
    by code_simp
  have n: "parseInt (trim ''rwx'') 8 = NaN"
    by code_simp
  have ch: "fst (sftp_chmod ?E 0 ''/run.sh'' NaN ()) = None"
    by (simp add: scripted_def all_fine_def)
  show ?thesis
    using uploadFile_NaN_mode_still_chmod [OF fm i hit first nan dir put] r n
    by (simp add: upload_mode_rwx_def p c ch)
qed


subsection \<open>Downloading\<close>

lemma pump_chunks:
  "pump t (map Chunk cs @ evs) (fs(t \<mapsto> d)) = pump t evs (fs(t \<mapsto> d @ concat cs))"
  by (induction cs arbitrary: d) simp_all

lemma pump_end:
  "pump t (map Chunk cs @ [StreamEnd (Inr n)]) (fs(t \<mapsto> []))
     = (Some (Inr (take n (concat cs))), fs(t := None))"
  by (simp add: pump_chunks COMPLETED_def)

lemma pump_read_error:
  "pump t (map Chunk cs @ StreamEnd (Inl e) # evs) (fs(t \<mapsto> [])) = (Some (Inl e), fs(t := None))"
  by (simp add: pump_chunks COMPLETED_def)

lemma pump_pipe_error:
  "pump t (map Chunk cs @ PipeError e # evs) (fs(t \<mapsto> [])) = (Some (Inl e), fs(t := None))"
  by (simp add: pump_chunks COMPLETED_def)

lemma pump_stream_error:
  "pump t (map Chunk cs @ StreamError e # evs) (fs(t \<mapsto> [])) = (Some (Inl e), fs(t \<mapsto> concat cs))"
  by (simp add: pump_chunks COMPLETED_def)

text \<open>
  The path on which the stream ends: the download returns the bytes of the file that are
  on the disk when \<open>end\<close> is handled, and the temporary file is gone when it returns. When
  the write stream has flushed every chunk by then, these are the bytes of the chunks.
\<close>

lemma downloadFile_end:
  assumes "sftp_get E (client ME) (toSFTPPath H path) (world st)
             = (Inr (map Chunk cs @ [StreamEnd (Inr n)]), w)"
    and "tmp_name E w = (Inr t, w')"
  shows "fst (downloadFile E H ME path st) = Some (Inr (take n (concat cs)))
         \<and> tmp_files (snd (downloadFile E H ME path st)) t = None"
  using assms by (simp add: downloadFile_def do_get_def do_tmpName_def issued_def pump_end)

lemma downloadFile_success:
  assumes "sftp_get E (client ME) (toSFTPPath H path) (world st)
             = (Inr (map Chunk cs @ [StreamEnd (Inr n)]), w)"
    and "length (concat cs) \<le> n"
    and "tmp_name E w = (Inr t, w')"
  shows "fst (downloadFile E H ME path st) = Some (Inr (concat cs))
         \<and> tmp_files (snd (downloadFile E H ME path st)) t = None"
  using downloadFile_end [OF assms(1) assms(3)] assms(2) by simp

text \<open>
  The path on which the read of the temporary file fails: the download is rejected with
  the error of the read, and the temporary file is gone when it returns.
\<close>

lemma downloadFile_read_error:
  assumes "sftp_get E (client ME) (toSFTPPath H path) (world st)
             = (Inr (map Chunk cs @ StreamEnd (Inl e) # evs), w)"
    and "tmp_name E w = (Inr t, w')"
  shows "fst (downloadFile E H ME path st) = Some (Inl e)
         \<and> tmp_files (snd (downloadFile E H ME path st)) t = None"
  using assms by (simp add: downloadFile_def do_get_def do_tmpName_def issued_def pump_read_error)

theorem downloadFile_success_witness:
  "fst (downloadFile (scripted three_bytes) deploy_helpers (first_client no_options) ''a/b.bin''
          after_first_client) = Some (Inr [1, 2, 3])
   \<and> tmp_files (snd (downloadFile (scripted three_bytes) deploy_helpers (first_client no_options)
          ''a/b.bin'' after_first_client)) ''/tmp/vscdr.tmp'' = None"
proof -
  have g: "sftp_get (scripted three_bytes) (client (first_client no_options))
             (toSFTPPath deploy_helpers ''a/b.bin'') (world after_first_client)
           = (Inr (map Chunk [[1, 2], [3]] @ [StreamEnd (Inr 3)]), ())"
    by (simp add: scripted_def three_bytes_def all_fine_def)
  have n: "length (concat [[1, 2], [3 :: 8 word]]) \<le> 3"
    by simp
  have t: "tmp_name (scripted three_bytes) () = (Inr ''/tmp/vscdr.tmp'', ())"
    by (simp add: scripted_def)
  show ?thesis
    using downloadFile_success [OF g n t] by simp
qed

text \<open>
  The path on which the stream emits \<open>error\<close>: the download is rejected with the error of
  the stream, and the temporary file is still there, with what the pipe has written.
\<close>

lemma downloadFile_stream_error:
  assumes "sftp_get E (client ME) (toSFTPPath H path) (world st) = (Inr (map Chunk cs @ StreamError e # evs), w)"
    and "tmp_name E w = (Inr t, w')"
  shows "fst (downloadFile E H ME path st) = Some (Inl e)
         \<and> tmp_files (snd (downloadFile E H ME path st)) t = Some (concat cs)"
  using assms by (simp add: downloadFile_def do_get_def do_tmpName_def issued_def pump_stream_error)

text \<open>
  Claim C5 says that \<open>downloadFile\<close> returns the bytes of the remote file and that the
  temporary file is removed before the call returns, on the success path and on the
  stream-error path. The code removes the file on the path on which the stream ends (the
  lemmas above) but not when the stream breaks: for a stream that delivers the bytes
  1, 2, 3 and then emits \<open>error\<close>, the call is rejected while the temporary file is still
  there, with the three bytes that the pipe has written.
\<close>

theorem downloadFile_stream_error_leaves_temp_file:
  "fst download_stream_breaks = Some (Inl (Error ''ECONNRESET''))
   \<and> tmp_files (snd download_stream_breaks) ''/tmp/vscdr.tmp'' = Some [1, 2, 3]"
  by code_simp







end
